theory Spec2Isabelle
  imports Main "HOL-Library.Sublist"
begin

section \<open>The contact-form backend of Lunara AI (src/main.py)\<close>

text \<open>
  The program is one FastAPI module: a request schema (\<open>ContactRequest\<close>), a table
  (\<open>ContactMessage\<close>), a mail notifier (\<open>send_contact_email\<close>) and two handlers
  (\<open>submit_contact\<close>, \<open>read_root\<close>). Everything the handlers do beyond returning a
  value goes through a library: pydantic validates, SQLAlchemy over SQLite stores, smtplib
  sends. The functions of \<open>main.py\<close> are translated line by line; each library call is a
  primitive below whose behaviour is the library's documented one, and whatever the outside
  world decides (the clock, a storage fault, a transport fault) is an explicit input of the
  request, so that every place where the Python can raise is a branch of the model. The
  world is the one after start-up: \<open>create_db_and_tables\<close> has made the table.
\<close>

subsection \<open>Values\<close>

text \<open>JSON values, for request bodies and response bodies.\<close>

datatype json =
    JNull
  | JBool bool
  | JNum int
  | JStr string
  | JArr "json list"
  | JObj "(string \<times> json) list"

text \<open>
  A Python exception: its class name and its \<open>str()\<close>. Every exception the libraries
  raise here derives from \<open>Exception\<close>, which is what the handler's \<open>except Exception\<close>
  catches.
\<close>

datatype exn = Exception string string

fun str_exn :: "exn \<Rightarrow> string" where
  "str_exn (Exception cls msg) = msg"

type_synonym datetime = nat

text \<open>
  \<open>class ContactMessage(Base)\<close>: the mapped object. \<open>id\<close> and \<open>created_at\<close> are
  \<open>None\<close> on a new object until the INSERT assigns them. The fields carry the prefix
  \<open>cm_\<close> because \<open>id\<close> is a constant of HOL.
\<close>

record ContactMessage =
  cm_id :: "int option"
  cm_name :: string
  cm_email :: string
  cm_message :: string
  cm_created_at :: "datetime option"

text \<open>\<open>class ContactRequest(BaseModel)\<close>: the validated payload.\<close>

record ContactRequest =
  name :: string
  email :: string
  message :: string

text \<open>\<open>EmailMessage\<close> with the three headers and the content the notifier sets.\<close>

record EmailMessage =
  Subject :: string
  From :: string
  To :: string
  content :: string

text \<open>
  What the process does on the network, in order: \<open>smtplib.SMTP_SSL(host, port)\<close>
  connects, \<open>login\<close>, \<open>send_message\<close>, and the \<open>QUIT\<close> of the \<open>with\<close> block's exit.
\<close>

datatype net_action =
    Connect string nat
  | Login string string
  | SendMessage EmailMessage
  | Quit

subsection \<open>The world outside the handler\<close>

text \<open>
  \<open>table\<close> is the committed content of \<open>contact_messages\<close>, oldest row first;
  \<open>environ\<close> is \<open>os.environ\<close>; \<open>net\<close> is the trace of network actions attempted so
  far; \<open>stdout\<close> the lines printed so far.
\<close>

record world =
  table :: "ContactMessage list"
  environ :: "string \<rightharpoonup> string"
  net :: "net_action list"
  stdout :: "string list"

text \<open>
  What the outside world decides during one request: the reading of the server's clock
  (\<open>datetime.utcnow()\<close>), and for each library call that does I/O whether it raises and
  what. \<open>None\<close> means the call returns normally.
\<close>

record ext =
  utcnow :: datetime
  commit_raises :: "exn option"
  refresh_raises :: "exn option"
  smtp_connect_raises :: "exn option"
  smtp_login_raises :: "exn option"
  smtp_send_raises :: "exn option"
  smtp_quit_raises :: "exn option"

definition print :: "string \<Rightarrow> world \<Rightarrow> world" where
  "print s w = w\<lparr>stdout := stdout w @ [s]\<rparr>"

definition net_do :: "net_action \<Rightarrow> world \<Rightarrow> world" where
  "net_do a w = w\<lparr>net := net w @ [a]\<rparr>"

subsection \<open>The persistence store (SQLAlchemy session over SQLite)\<close>

text \<open>
  \<open>id = Column(Integer, primary_key=True)\<close> is SQLite's rowid: an INSERT that gives no
  id takes one more than the largest id in the table, and 1 in an empty table. Python's
  integers are unbounded and the ids are modelled so; the ceiling of SQLite's 64-bit rowid
  is outside the model.
\<close>

definition table_ids :: "ContactMessage list \<Rightarrow> int list" where
  "table_ids t = List.map_filter cm_id t"

definition next_rowid :: "ContactMessage list \<Rightarrow> int" where
  "next_rowid t = (case table_ids t of [] \<Rightarrow> 1 | i # js \<Rightarrow> fold max js i + 1)"

text \<open>
  The INSERT of one new object: the store assigns the id, and the column default
  \<open>default=datetime.utcnow\<close> fills \<open>created_at\<close> when the object carries none.
\<close>

definition INSERT :: "datetime \<Rightarrow> ContactMessage \<Rightarrow> ContactMessage list \<Rightarrow> ContactMessage" where
  "INSERT now c t =
     c\<lparr>cm_id := Some (next_rowid t),
       cm_created_at := (case cm_created_at c of None \<Rightarrow> Some now | Some d \<Rightarrow> Some d)\<rparr>"

text \<open>
  A session holds the objects added to it, in order; an object whose id is \<open>None\<close> is
  pending. \<open>SessionLocal()\<close> makes an empty session and touches nothing.
\<close>

record Session =
  objects :: "ContactMessage list"

definition SessionLocal :: Session where
  "SessionLocal = \<lparr>objects = []\<rparr>"

text \<open>\<open>db.add(obj)\<close>; the result names the object by its position in the session.\<close>

definition db_add :: "Session \<Rightarrow> ContactMessage \<Rightarrow> Session \<times> nat" where
  "db_add db c = (db\<lparr>objects := objects db @ [c]\<rparr>, length (objects db))"

text \<open>The flush of a commit: every pending object is inserted, in the order added.\<close>

fun flush :: "datetime \<Rightarrow> ContactMessage list \<Rightarrow> ContactMessage list
    \<Rightarrow> ContactMessage list \<times> ContactMessage list" where
  "flush now [] t = ([], t)"
| "flush now (c # cs) t =
     (case cm_id c of
        Some i \<Rightarrow> (let (cs', t') = flush now cs t in (c # cs', t'))
      | None \<Rightarrow>
          (let r = INSERT now c t;
               (cs', t') = flush now cs (t @ [r])
           in (r # cs', t')))"

text \<open>
  \<open>db.commit()\<close>. SQLite commits a transaction whole or not at all: when the commit
  raises, the table is as before.
\<close>

definition db_commit :: "ext \<Rightarrow> Session \<Rightarrow> world \<Rightarrow> exn + Session \<times> world" where
  "db_commit x db w =
     (case commit_raises x of
        Some e \<Rightarrow> Inl e
      | None \<Rightarrow>
          (let (objs, t) = flush (utcnow x) (objects db) (table w)
           in Inr (db\<lparr>objects := objs\<rparr>, w\<lparr>table := t\<rparr>)))"

fun nth_opt :: "'a list \<Rightarrow> nat \<Rightarrow> 'a option" where
  "nth_opt [] n = None"
| "nth_opt (y # ys) 0 = Some y"
| "nth_opt (y # ys) (Suc n) = nth_opt ys n"

text \<open>
  \<open>db.refresh(obj)\<close>: a SELECT of the object's row by its primary key, which replaces
  the object's attributes. It raises when the read fails, and \<open>InvalidRequestError\<close> when
  the object is not persistent or its row is gone.
\<close>

definition not_persistent :: exn where
  "not_persistent = Exception ''InvalidRequestError'' ''Instance is not persistent within this Session''"

definition no_row :: exn where
  "no_row = Exception ''InvalidRequestError'' ''Could not refresh instance''"

definition db_refresh :: "ext \<Rightarrow> Session \<Rightarrow> nat \<Rightarrow> world \<Rightarrow> exn + Session \<times> ContactMessage" where
  "db_refresh x db ref w =
     (case nth_opt (objects db) ref of
        None \<Rightarrow> Inl not_persistent
      | Some c \<Rightarrow>
          (case cm_id c of
             None \<Rightarrow> Inl not_persistent
           | Some i \<Rightarrow>
               (case refresh_raises x of
                  Some e \<Rightarrow> Inl e
                | None \<Rightarrow>
                    (case find (\<lambda>r. cm_id r = Some i) (table w) of
                       None \<Rightarrow> Inl no_row
                     | Some r \<Rightarrow> Inr (db\<lparr>objects := (objects db)[ref := r]\<rparr>, r)))))"

text \<open>
  \<open>db.close()\<close> in the \<open>finally\<close> of \<open>get_db\<close>: with \<open>autoflush=False\<close> nothing
  reaches the table outside a commit, so closing leaves the table as it is.
\<close>

definition db_close :: "Session \<Rightarrow> world \<Rightarrow> world" where
  "db_close db w = w"

subsection \<open>Request validation (pydantic)\<close>

text \<open>
  The parsed JSON object of the request is a dictionary. \<open>name: str\<close> and
  \<open>message: str\<close> ask for a key that is present and holds a string; \<open>email: EmailStr\<close>
  asks in addition that the email-validator library accepts the string, and keeps the
  normalised address the library returns. That library is not part of this repository: it
  is the parameter \<open>ev\<close> of the model, \<open>None\<close> for a string that does not parse as an
  email address.
\<close>

datatype field_error =
    Missing string
  | NotAString string
  | NotAnEmail string

definition validate_str :: "(string \<rightharpoonup> json) \<Rightarrow> string \<Rightarrow> field_error + string" where
  "validate_str body field =
     (case body field of
        None \<Rightarrow> Inl (Missing field)
      | Some (JStr s) \<Rightarrow> Inr s
      | Some _ \<Rightarrow> Inl (NotAString field))"

definition validate_EmailStr ::
    "(string \<Rightarrow> string option) \<Rightarrow> (string \<rightharpoonup> json) \<Rightarrow> string \<Rightarrow> field_error + string" where
  "validate_EmailStr ev body field =
     (case body field of
        None \<Rightarrow> Inl (Missing field)
      | Some (JStr s) \<Rightarrow> (case ev s of None \<Rightarrow> Inl (NotAnEmail field) | Some a \<Rightarrow> Inr a)
      | Some _ \<Rightarrow> Inl (NotAString field))"

fun lefts :: "('a + 'b) list \<Rightarrow> 'a list" where
  "lefts [] = []"
| "lefts (Inl a # xs) = a # lefts xs"
| "lefts (Inr b # xs) = lefts xs"

text \<open>Validation reports the errors of all three fields, or builds the payload.\<close>

definition ContactRequest_validate ::
    "(string \<Rightarrow> string option) \<Rightarrow> (string \<rightharpoonup> json) \<Rightarrow> field_error list + ContactRequest" where
  "ContactRequest_validate ev body =
     (let n = validate_str body ''name'';
          e = validate_EmailStr ev body ''email'';
          m = validate_str body ''message''
      in case (n, e, m) of
           (Inr n', Inr e', Inr m') \<Rightarrow> Inr \<lparr>name = n', email = e', message = m'\<rparr>
         | _ \<Rightarrow> Inl (lefts [n, e, m]))"

subsection \<open>The mail notifier\<close>

definition nl :: string where
  "nl = [CHR 0x0A]"

text \<open>The \<open>with smtplib.SMTP_SSL(...) as server\<close> block.\<close>

definition smtp_exit :: "ext \<Rightarrow> exn + unit \<Rightarrow> world \<Rightarrow> (exn + unit) \<times> world" where
  "smtp_exit x result w =
     (let w' = net_do Quit w
      in case smtp_quit_raises x of Some e \<Rightarrow> (Inl e, w') | None \<Rightarrow> (result, w'))"

definition smtp_session :: "ext \<Rightarrow> string \<Rightarrow> string \<Rightarrow> EmailMessage \<Rightarrow> world \<Rightarrow> (exn + unit) \<times> world" where
  "smtp_session x user password msg w =
     (let w1 = net_do (Connect ''smtp.gmail.com'' 465) w
      in case smtp_connect_raises x of
           Some e \<Rightarrow> (Inl e, w1)
         | None \<Rightarrow>
             (let w2 = net_do (Login user password) w1
              in case smtp_login_raises x of
                   Some e \<Rightarrow> smtp_exit x (Inl e) w2
                 | None \<Rightarrow>
                     (let w3 = net_do (SendMessage msg) w2
                      in case smtp_send_raises x of
                           Some e \<Rightarrow> smtp_exit x (Inl e) w3
                         | None \<Rightarrow> smtp_exit x (Inr ()) w3)))"

text \<open>
  Python's \<open>not v\<close> for a value that is \<open>None\<close> or a string: true for \<open>None\<close> and for
  the empty string.
\<close>

fun falsy :: "string option \<Rightarrow> bool" where
  "falsy None = True"
| "falsy (Some s) = (s = [])"

text \<open>
  \<open>send_contact_email(data)\<close>. The printed lines are the source's without their
  leading pictograph. The guard has excluded \<open>None\<close> for all three values when the
  message is built, so the last branch of the \<open>case\<close> is never taken.
\<close>

definition send_contact_email :: "ext \<Rightarrow> ContactRequest \<Rightarrow> world \<Rightarrow> (exn + unit) \<times> world" where
  "send_contact_email x data w =
     (let gmail_user = environ w ''GMAIL_USER'';
          gmail_app_password = environ w ''GMAIL_APP_PASSWORD'';
          to_email = (case environ w ''TO_EMAIL'' of None \<Rightarrow> gmail_user | Some v \<Rightarrow> Some v)
      in if falsy gmail_user \<or> falsy gmail_app_password \<or> falsy to_email
         then (Inr (), print ''Email not sent: missing GMAIL_USER / GMAIL_APP_PASSWORD / TO_EMAIL env vars'' w)
         else
           (case (gmail_user, gmail_app_password, to_email) of
              (Some u, Some p, Some t) \<Rightarrow>
                (let body = ''New contact message from Lunara AI'' @ nl @ nl
                          @ ''Name: '' @ name data @ nl
                          @ ''Email: '' @ email data @ nl @ nl
                          @ ''Message:'' @ nl @ message data @ nl;
                     msg = \<lparr>Subject = ''New contact message from Lunara AI'',
                            From = u, To = t, content = body\<rparr>
                 in case smtp_session x u p msg w of
                      (Inl e, w') \<Rightarrow> (Inl e, w')
                    | (Inr _, w') \<Rightarrow> (Inr (), print ''Contact email sent successfully'' w'))
            | _ \<Rightarrow> (Inr (), w)))"

subsection \<open>The handlers\<close>

fun json_of_id :: "int option \<Rightarrow> json" where
  "json_of_id None = JNull"
| "json_of_id (Some i) = JNum i"

definition saved_message :: string where
  "saved_message = ''Contact message saved and email sent (if email is configured).''"

text \<open>
  The \<open>try: send_contact_email(payload) except Exception as e: print(...)\<close> of
  \<open>submit_contact\<close>: whatever the notifier raises is printed and goes no further.
\<close>

definition try_send_contact_email :: "ext \<Rightarrow> ContactRequest \<Rightarrow> world \<Rightarrow> world" where
  "try_send_contact_email x payload w =
     (case send_contact_email x payload w of
        (Inl e, w') \<Rightarrow> print (''Error sending email: '' @ str_exn e) w'
      | (Inr _, w') \<Rightarrow> w')"

text \<open>
  \<open>submit_contact(payload, db)\<close>: the returned dictionary, or the exception that leaves
  the handler.
\<close>

definition submit_contact ::
    "ext \<Rightarrow> ContactRequest \<Rightarrow> Session \<Rightarrow> world \<Rightarrow> (exn + (string \<times> json) list) \<times> Session \<times> world" where
  "submit_contact x payload db w =
     (let contact = \<lparr>cm_id = None, cm_name = name payload, cm_email = email payload,
                     cm_message = message payload, cm_created_at = None\<rparr>;
          (db1, ref) = db_add db contact
      in case db_commit x db1 w of
           Inl e \<Rightarrow> (Inl e, db1, w)
         | Inr (db2, w2) \<Rightarrow>
             (case db_refresh x db2 ref w2 of
                Inl e \<Rightarrow> (Inl e, db2, w2)
              | Inr (db3, contact') \<Rightarrow>
                  (let w3 = try_send_contact_email x payload w2
                   in (Inr [(''success'', JBool True),
                            (''id'', json_of_id (cm_id contact')),
                            (''message'', JStr saved_message)], db3, w3))))"

definition read_root :: "(string \<times> json) list" where
  "read_root = [(''status'', JStr ''ok''), (''message'', JStr ''Lunara AI backend is running'')]"

subsection \<open>The routes (FastAPI)\<close>

text \<open>
  FastAPI validates the body against the handler's parameter type before it calls the
  handler and answers 422 with the list of errors when validation fails; it answers 500
  when the handler raises, and 200 with the returned dictionary otherwise. \<open>get_db\<close>
  opens the session for the handler and closes it on every exit.
\<close>

datatype response = HTTP nat json

fun status_code :: "response \<Rightarrow> nat" where
  "status_code (HTTP c b) = c"

fun body_of :: "response \<Rightarrow> json" where
  "body_of (HTTP c b) = b"

fun error_json :: "field_error \<Rightarrow> json" where
  "error_json (Missing f) = JObj [(''loc'', JStr f), (''msg'', JStr ''field required'')]"
| "error_json (NotAString f) = JObj [(''loc'', JStr f), (''msg'', JStr ''str type expected'')]"
| "error_json (NotAnEmail f) = JObj [(''loc'', JStr f), (''msg'', JStr ''value is not a valid email address'')]"

definition post_api_contact ::
    "(string \<Rightarrow> string option) \<Rightarrow> ext \<Rightarrow> (string \<rightharpoonup> json) \<Rightarrow> world \<Rightarrow> response \<times> world" where
  "post_api_contact ev x body w =
     (case ContactRequest_validate ev body of
        Inl errs \<Rightarrow> (HTTP 422 (JObj [(''detail'', JArr (map error_json errs))]), w)
      | Inr payload \<Rightarrow>
          (case submit_contact x payload SessionLocal w of
             (Inl e, db, w') \<Rightarrow> (HTTP 500 (JStr ''Internal Server Error''), db_close db w')
           | (Inr result, db, w') \<Rightarrow> (HTTP 200 (JObj result), db_close db w')))"

definition get_root :: "world \<Rightarrow> response \<times> world" where
  "get_root w = (HTTP 200 (JObj read_root), w)"

text \<open>A request as the server receives it, and a run of the server over a list of them.\<close>

datatype request =
    POST_api_contact ext "string \<rightharpoonup> json"
  | GET_root

fun handle :: "(string \<Rightarrow> string option) \<Rightarrow> request \<Rightarrow> world \<Rightarrow> response \<times> world" where
  "handle ev (POST_api_contact x body) w = post_api_contact ev x body w"
| "handle ev GET_root w = get_root w"

fun run :: "(string \<Rightarrow> string option) \<Rightarrow> request list \<Rightarrow> world \<Rightarrow> response list \<times> world" where
  "run ev [] w = ([], w)"
| "run ev (q # qs) w =
     (let (r, w1) = handle ev q w;
          (rs, w2) = run ev qs w1
      in (r # rs, w2))"

subsection \<open>Vocabulary of the properties\<close>

text \<open>
  The row the table holds for a payload inserted into table \<open>t\<close> during a request with
  the external inputs \<open>x\<close>, and the dictionary \<open>submit_contact\<close> returns for the id \<open>i\<close>,
  as the 200 response.
\<close>

abbreviation stored_row :: "ext \<Rightarrow> ContactRequest \<Rightarrow> ContactMessage list \<Rightarrow> ContactMessage" where
  "stored_row x payload t \<equiv>
     \<lparr>cm_id = Some (next_rowid t), cm_name = name payload, cm_email = email payload,
      cm_message = message payload, cm_created_at = Some (utcnow x)\<rparr>"

abbreviation saved_response :: "int \<Rightarrow> response" where
  "saved_response i \<equiv>
     HTTP 200 (JObj [(''success'', JBool True), (''id'', JNum i), (''message'', JStr saved_message)])"

text \<open>The \<open>id\<close> a response reports: that of a 200 response whose body has an integer \<open>id\<close>.\<close>

fun response_id :: "response \<Rightarrow> int option" where
  "response_id (HTTP c (JObj kvs)) =
     (if c = 200 then (case map_of kvs ''id'' of Some (JNum i) \<Rightarrow> Some i | _ \<Rightarrow> None) else None)"
| "response_id (HTTP c _) = None"




subsection \<open>Sample inputs\<close>

text \<open>
  Concrete inputs on which the theorems below are instantiated. \<open>has_at_sign\<close> stands in
  for the email validator: it accepts exactly the strings with an \<open>@\<close> and returns them
  unchanged (the real library rejects every string without one).
\<close>

definition has_at_sign :: "string \<Rightarrow> string option" where
  "has_at_sign s = (if CHR ''@'' \<in> set s then Some s else None)"

definition w0 :: world where
  "w0 = \<lparr>table = [], environ = Map.empty, net = [], stdout = []\<rparr>"

definition w_configured :: world where
  "w_configured =
     \<lparr>table = [],
      environ = [''GMAIL_USER'' \<mapsto> ''me@gmail.com'', ''GMAIL_APP_PASSWORD'' \<mapsto> ''secret''],
      net = [], stdout = []\<rparr>"

definition x0 :: ext where
  "x0 = \<lparr>utcnow = 1000, commit_raises = None, refresh_raises = None,
         smtp_connect_raises = None, smtp_login_raises = None,
         smtp_send_raises = None, smtp_quit_raises = None\<rparr>"

definition auth_error :: exn where
  "auth_error = Exception ''SMTPAuthenticationError'' ''(535, bad credentials)''"

definition locked :: exn where
  "locked = Exception ''OperationalError'' ''database is locked''"

definition body_ok :: "string \<rightharpoonup> json" where
  "body_ok = [''name'' \<mapsto> JStr ''A'', ''email'' \<mapsto> JStr ''a@b.c'', ''message'' \<mapsto> JStr ''hi'']"

definition payload_ok :: ContactRequest where
  "payload_ok = \<lparr>name = ''A'', email = ''a@b.c'', message = ''hi''\<rparr>"

definition body_not_an_email :: "string \<rightharpoonup> json" where
  "body_not_an_email =
     [''name'' \<mapsto> JStr ''A'', ''email'' \<mapsto> JStr ''not-an-email'', ''message'' \<mapsto> JStr ''hi'']"

definition body_empty :: "string \<rightharpoonup> json" where
  "body_empty = [''name'' \<mapsto> JStr '''', ''email'' \<mapsto> JStr ''a@b.c'', ''message'' \<mapsto> JStr '''']"

definition old_row :: ContactMessage where
  "old_row = \<lparr>cm_id = Some 5, cm_name = ''B'', cm_email = ''b@c.d'', cm_message = ''old'',
              cm_created_at = Some 500\<rparr>"

definition w_one_row :: world where
  "w_one_row = \<lparr>table = [old_row], environ = Map.empty, net = [], stdout = []\<rparr>"

section \<open>Properties\<close>

subsection \<open>The store assigns fresh ids\<close>

lemma fold_max_ge: "(i::int) \<le> fold max js i"
proof (induction js arbitrary: i)
  case Nil show ?case by simp
next
  case (Cons a js)
  have "i \<le> max a i" by simp
  also have "max a i \<le> fold max js (max a i)" by (rule Cons.IH)
  finally show ?case by simp
qed

lemma fold_max_mem_le: "(j::int) \<in> set js \<Longrightarrow> j \<le> fold max js i"
proof (induction js arbitrary: i)
  case Nil then show ?case by simp
next
  case (Cons a js)
  show ?case
  proof (cases "j = a")
    case True
    have "max a i \<le> fold max js (max a i)" by (rule fold_max_ge)
    with True show ?thesis by simp
  next
    case False
    with Cons show ?thesis by simp
  qed
qed

lemma table_ids_lt_next_rowid:
  assumes "r \<in> set t" and "cm_id r = Some i"
  shows "i < next_rowid t"
proof -
  from assms have mem: "i \<in> set (table_ids t)"
    by (force simp: table_ids_def List.map_filter_def)
  show ?thesis
  proof (cases "table_ids t")
    case Nil with mem show ?thesis by simp
  next
    case (Cons k js)
    with mem have "i = k \<or> i \<in> set js" by simp
    then have "i \<le> fold max js k"
      using fold_max_ge[of k js] fold_max_mem_le[of i js k] by auto
    with Cons show ?thesis by (simp add: next_rowid_def)
  qed
qed

lemma find_fresh_row:
  assumes "cm_id r = Some (next_rowid t)"
  shows "find (\<lambda>q. cm_id q = Some (next_rowid t)) (t @ [r]) = Some r"
proof -
  have fresh: "\<forall>q \<in> set t. cm_id q \<noteq> Some (next_rowid t)"
    using table_ids_lt_next_rowid[of _ t "next_rowid t"] by auto
  have "find P (u @ [r]) = Some r" if "\<forall>q \<in> set u. \<not> P q" and "P r" for P and u :: "ContactMessage list"
    using that by (induction u) auto
  from this[OF fresh assms] show ?thesis .
qed



subsection \<open>What one request does\<close>

lemma submit_contact_commit_raises:
  assumes "commit_raises x = Some e"
  shows "\<exists>db'. submit_contact x payload SessionLocal w = (Inl e, db', w)"
  using assms by (simp add: submit_contact_def db_add_def SessionLocal_def db_commit_def)

lemma submit_contact_refresh_raises:
  assumes "commit_raises x = None" and "refresh_raises x = Some e"
  shows "\<exists>db'. submit_contact x payload SessionLocal w =
    (Inl e, db', w\<lparr>table := table w @
       [\<lparr>cm_id = Some (next_rowid (table w)), cm_name = name payload, cm_email = email payload,
         cm_message = message payload, cm_created_at = Some (utcnow x)\<rparr>]\<rparr>)"
  using assms
  by (simp add: submit_contact_def db_add_def SessionLocal_def db_commit_def Let_def
      INSERT_def db_refresh_def)

lemma submit_contact_stored:
  assumes "commit_raises x = None" and "refresh_raises x = None"
  shows "\<exists>db'. submit_contact x payload SessionLocal w =
    (Inr [(''success'', JBool True), (''id'', JNum (next_rowid (table w))),
          (''message'', JStr saved_message)], db',
     try_send_contact_email x payload (w\<lparr>table := table w @
       [\<lparr>cm_id = Some (next_rowid (table w)), cm_name = name payload, cm_email = email payload,
         cm_message = message payload, cm_created_at = Some (utcnow x)\<rparr>]\<rparr>))"
proof -
  let ?r = "\<lparr>cm_id = Some (next_rowid (table w)), cm_name = name payload, cm_email = email payload,
         cm_message = message payload, cm_created_at = Some (utcnow x)\<rparr>"
  have "find (\<lambda>q. cm_id q = Some (next_rowid (table w))) (table w @ [?r]) = Some ?r"
    by (rule find_fresh_row) simp
  with assms show ?thesis
    by (simp add: submit_contact_def db_add_def SessionLocal_def db_commit_def Let_def
      INSERT_def db_refresh_def)
qed

lemma post_invalid:
  assumes "ContactRequest_validate ev body = Inl errs"
  shows "post_api_contact ev x body w = (HTTP 422 (JObj [(''detail'', JArr (map error_json errs))]), w)"
  using assms by (simp add: post_api_contact_def)

lemma post_commit_raises:
  assumes "ContactRequest_validate ev body = Inr payload" and "commit_raises x = Some e"
  shows "post_api_contact ev x body w = (HTTP 500 (JStr ''Internal Server Error''), w)"
  using assms submit_contact_commit_raises[of x e payload w]
  by (auto simp: post_api_contact_def db_close_def)

lemma post_refresh_raises:
  assumes "ContactRequest_validate ev body = Inr payload"
    and "commit_raises x = None" and "refresh_raises x = Some e"
  shows "post_api_contact ev x body w =
    (HTTP 500 (JStr ''Internal Server Error''),
     w\<lparr>table := table w @
       [\<lparr>cm_id = Some (next_rowid (table w)), cm_name = name payload, cm_email = email payload,
         cm_message = message payload, cm_created_at = Some (utcnow x)\<rparr>]\<rparr>)"
  using assms submit_contact_refresh_raises[of x e payload w]
  by (auto simp: post_api_contact_def db_close_def)

lemma post_stored:
  assumes "ContactRequest_validate ev body = Inr payload"
    and "commit_raises x = None" and "refresh_raises x = None"
  shows "post_api_contact ev x body w =
    (HTTP 200 (JObj [(''success'', JBool True), (''id'', JNum (next_rowid (table w))),
                     (''message'', JStr saved_message)]),
     try_send_contact_email x payload (w\<lparr>table := table w @
       [\<lparr>cm_id = Some (next_rowid (table w)), cm_name = name payload, cm_email = email payload,
         cm_message = message payload, cm_created_at = Some (utcnow x)\<rparr>]\<rparr>))"
  using assms submit_contact_stored[of x payload w]
  by (auto simp: post_api_contact_def db_close_def)

lemma smtp_exit_frame:
  "table (snd (smtp_exit x r w)) = table w \<and> environ (snd (smtp_exit x r w)) = environ w"
  by (simp add: smtp_exit_def net_do_def Let_def split: option.splits)

lemma smtp_session_frame:
  "table (snd (smtp_session x u p m w)) = table w \<and> environ (snd (smtp_session x u p m w)) = environ w"
  by (simp add: smtp_session_def smtp_exit_frame net_do_def Let_def split: option.splits)

lemma send_contact_email_frame:
  "table (snd (send_contact_email x d w)) = table w \<and> environ (snd (send_contact_email x d w)) = environ w"
proof -
  have "table (snd (case smtp_session x u p m w of
                      (Inl e, w') \<Rightarrow> (Inl e, w')
                    | (Inr _, w') \<Rightarrow> (Inr (), print s w'))) = table w
     \<and> environ (snd (case smtp_session x u p m w of
                      (Inl e, w') \<Rightarrow> (Inl e :: exn + unit, w')
                    | (Inr _, w') \<Rightarrow> (Inr (), print s w'))) = environ w" for u p m s
    using smtp_session_frame[of x u p m w]
    by (cases "smtp_session x u p m w") (auto simp: print_def split: sum.splits)
  then show ?thesis
    by (simp add: send_contact_email_def Let_def print_def split: option.splits)
qed

lemma try_send_contact_email_frame:
  "table (try_send_contact_email x d w) = table w \<and> environ (try_send_contact_email x d w) = environ w"
  using send_contact_email_frame[of x d w]
  by (cases "send_contact_email x d w") (auto simp: try_send_contact_email_def print_def split: sum.splits)

lemma validate_missing_or_bad_email:
  assumes "body ''name'' = None \<or> body ''email'' = None \<or> body ''message'' = None
           \<or> (\<exists>s. body ''email'' = Some (JStr s) \<and> ev s = None)"
  shows "\<exists>errs. ContactRequest_validate ev body = Inl errs"
  using assms
  by (auto simp: ContactRequest_validate_def validate_str_def validate_EmailStr_def Let_def
           split: option.splits json.splits sum.splits)

lemma next_rowid_Nil: "next_rowid [] = 1"
  by (simp add: next_rowid_def table_ids_def List.map_filter_def)

lemma validate_body_ok: "ContactRequest_validate has_at_sign body_ok = Inr payload_ok"
  by (simp add: ContactRequest_validate_def validate_str_def validate_EmailStr_def has_at_sign_def body_ok_def payload_ok_def)

lemma validate_strings:
  assumes "body ''name'' = Some (JStr n)" and "body ''email'' = Some (JStr s)" and "ev s = Some a"
    and "body ''message'' = Some (JStr m)"
  shows "ContactRequest_validate ev body = Inr \<lparr>name = n, email = a, message = m\<rparr>"
  using assms by (simp add: ContactRequest_validate_def validate_str_def validate_EmailStr_def)

lemma try_send_sample:
  "try_send_contact_email x0 payload_ok
     (w_configured\<lparr>table := table w_configured @ [stored_row x0 payload_ok (table w_configured)]\<rparr>) =
   w_configured\<lparr>table := [\<lparr>cm_id = Some 1, cm_name = ''A'', cm_email = ''a@b.c'',
                             cm_message = ''hi'', cm_created_at = Some 1000\<rparr>],
                 net := [Connect ''smtp.gmail.com'' 465, Login ''me@gmail.com'' ''secret'',
                         SendMessage \<lparr>Subject = ''New contact message from Lunara AI'',
                           From = ''me@gmail.com'', To = ''me@gmail.com'',
                           content = ''New contact message from Lunara AI'' @ nl @ nl
                             @ ''Name: A'' @ nl @ ''Email: a@b.c'' @ nl @ nl
                             @ ''Message:'' @ nl @ ''hi'' @ nl\<rparr>,
                         Quit],
                 stdout := [''Contact email sent successfully'']\<rparr>"
  by (simp add: try_send_contact_email_def send_contact_email_def smtp_session_def smtp_exit_def
      net_do_def print_def x0_def w_configured_def payload_ok_def next_rowid_Nil)

subsection \<open>What a run of requests does\<close>

text \<open>One request either leaves the table alone and reports no id, or appends one row with the next id.\<close>

lemma handle_step:
  "(table (snd (handle ev q w)) = table w \<and> response_id (fst (handle ev q w)) = None)
   \<or> (\<exists>r. table (snd (handle ev q w)) = table w @ [r] \<and> cm_id r = Some (next_rowid (table w))
        \<and> (response_id (fst (handle ev q w)) = None
            \<or> response_id (fst (handle ev q w)) = Some (next_rowid (table w))))"
proof (cases q)
  case GET_root
  then show ?thesis by (simp add: get_root_def read_root_def)
next
  case (POST_api_contact x body)
  show ?thesis
  proof (cases "ContactRequest_validate ev body")
    case (Inl errs)
    with POST_api_contact show ?thesis by (simp add: post_invalid)
  next
    case (Inr payload)
    show ?thesis
    proof (cases "commit_raises x")
      case (Some e)
      with Inr POST_api_contact show ?thesis by (simp add: post_commit_raises)
    next
      case None
      show ?thesis
      proof (cases "refresh_raises x")
        case (Some e)
        with Inr None POST_api_contact show ?thesis by (simp add: post_refresh_raises)
      next
        case rNone: None
        have "table (try_send_contact_email x payload (w\<lparr>table := t\<rparr>)) = t" for t
          using try_send_contact_email_frame[of x payload "w\<lparr>table := t\<rparr>"] by simp
        with Inr None rNone POST_api_contact show ?thesis by (simp add: post_stored)
      qed
    qed
  qed
qed


lemma run_Cons:
  "run ev (q # qs) w =
     (fst (handle ev q w) # fst (run ev qs (snd (handle ev q w))), snd (run ev qs (snd (handle ev q w))))"
  by (simp add: Let_def split: prod.splits)



lemma run_table_prefix: "prefix (table w) (table (snd (run ev qs w)))"
proof (induction qs arbitrary: w)
  case Nil
  show ?case by simp
next
  case (Cons q qs)
  have "prefix (table w) (table (snd (handle ev q w)))"
    using handle_step[of ev q w] by auto
  also have "prefix (table (snd (handle ev q w))) (table (snd (run ev qs (snd (handle ev q w)))))"
    by (rule Cons.IH)
  finally show ?case by (simp add: run_Cons del: run.simps(2))
qed





subsection \<open>The claims\<close>

text \<open>
  C1. A \<open>POST /api/contact\<close> whose body lacks one of the three fields, or whose
  \<open>email\<close> is a string the validator does not accept, is answered 422 (a 4xx validation
  error) and leaves the world exactly as it was: no row is stored, no network action is
  attempted, whatever the store and the transport would have done.
\<close>

theorem invalid_request_rejected:
  assumes "body ''name'' = None \<or> body ''email'' = None \<or> body ''message'' = None
           \<or> (\<exists>s. body ''email'' = Some (JStr s) \<and> ev s = None)"
  shows "status_code (fst (post_api_contact ev x body w)) = 422
       \<and> snd (post_api_contact ev x body w) = w"
proof -
  from validate_missing_or_bad_email[OF assms]
  obtain errs where "ContactRequest_validate ev body = Inl errs" ..
  then show ?thesis by (simp add: post_invalid)
qed

theorem invalid_request_rejected_witness:
  "(\<exists>s. body_not_an_email ''email'' = Some (JStr s) \<and> has_at_sign s = None)
   \<and> status_code (fst (post_api_contact has_at_sign x0 body_not_an_email w0)) = 422
   \<and> snd (post_api_contact has_at_sign x0 body_not_an_email w0) = w0"
proof -
  have h: "body_not_an_email ''name'' = None \<or> body_not_an_email ''email'' = None \<or> body_not_an_email ''message'' = None
           \<or> (\<exists>s. body_not_an_email ''email'' = Some (JStr s) \<and> has_at_sign s = None)"
    by (simp add: body_not_an_email_def has_at_sign_def)
  have "\<exists>s. body_not_an_email ''email'' = Some (JStr s) \<and> has_at_sign s = None"
    by (simp add: body_not_an_email_def has_at_sign_def)
  with invalid_request_rejected[OF h, of x0 w0] show ?thesis by simp
qed

text \<open>
  C2. For a valid submission whose insert went through, an exception raised by the notifier
  is caught by the handler: it is printed, the response is the same 200 success response
  with the assigned id, and the record is in the table.
\<close>

theorem notifier_exception_swallowed:
  assumes "ContactRequest_validate ev body = Inr payload"
    and "commit_raises x = None" and "refresh_raises x = None"
    and "send_contact_email x payload (w\<lparr>table := table w @ [stored_row x payload (table w)]\<rparr>) = (Inl e, w')"
  shows "post_api_contact ev x body w =
           (saved_response (next_rowid (table w)), print (''Error sending email: '' @ str_exn e) w')
       \<and> table (snd (post_api_contact ev x body w)) = table w @ [stored_row x payload (table w)]"
proof -
  let ?w2 = "w\<lparr>table := table w @ [stored_row x payload (table w)]\<rparr>"
  have post: "post_api_contact ev x body w =
      (saved_response (next_rowid (table w)), try_send_contact_email x payload ?w2)"
    using assms(1-3) by (rule post_stored)
  have "try_send_contact_email x payload ?w2 = print (''Error sending email: '' @ str_exn e) w'"
    using assms(4) by (simp add: try_send_contact_email_def)
  moreover have "table (try_send_contact_email x payload ?w2) = table ?w2"
    using try_send_contact_email_frame by blast
  ultimately show ?thesis using post by simp
qed

theorem notifier_exception_swallowed_witness:
  "post_api_contact has_at_sign (x0\<lparr>smtp_login_raises := Some auth_error\<rparr>) body_ok w_configured =
     (saved_response 1,
      w_configured\<lparr>table := [\<lparr>cm_id = Some 1, cm_name = ''A'', cm_email = ''a@b.c'',
                                cm_message = ''hi'', cm_created_at = Some 1000\<rparr>],
                    net := [Connect ''smtp.gmail.com'' 465, Login ''me@gmail.com'' ''secret'', Quit],
                    stdout := [''Error sending email: (535, bad credentials)'']\<rparr>)"
proof -
  let ?x = "x0\<lparr>smtp_login_raises := Some auth_error\<rparr>"
  let ?w' = "w_configured\<lparr>table := [\<lparr>cm_id = Some 1, cm_name = ''A'', cm_email = ''a@b.c'',
                                cm_message = ''hi'', cm_created_at = Some 1000\<rparr>],
                    net := [Connect ''smtp.gmail.com'' 465, Login ''me@gmail.com'' ''secret'', Quit]\<rparr>"
  have h2: "commit_raises ?x = None" and h3: "refresh_raises ?x = None"
    by (simp_all add: x0_def)
  have h4: "send_contact_email ?x payload_ok
      (w_configured\<lparr>table := table w_configured @ [stored_row ?x payload_ok (table w_configured)]\<rparr>)
      = (Inl auth_error, ?w')"
    by (simp add: send_contact_email_def smtp_session_def smtp_exit_def net_do_def print_def
        x0_def w_configured_def payload_ok_def auth_error_def next_rowid_def table_ids_def List.map_filter_def)
  show ?thesis
    using notifier_exception_swallowed[OF validate_body_ok h2 h3 h4]
    by (simp add: print_def x0_def w_configured_def payload_ok_def auth_error_def next_rowid_Nil)
qed

text \<open>
  C3. The order of the side effects of a valid submission. When the commit raises, the
  request fails with 500 and nothing else has happened: no row, no network action. When the
  refresh that follows the commit raises, the request fails with 500 and no network action
  has happened. Otherwise the notifier runs in the world that already holds the committed
  row. In every case, a network action implies that the row is in the table.
\<close>

theorem insert_precedes_mail:
  assumes "ContactRequest_validate ev body = Inr payload"
  shows "(\<forall>e. commit_raises x = Some e \<longrightarrow>
            post_api_contact ev x body w = (HTTP 500 (JStr ''Internal Server Error''), w))
       \<and> (\<forall>e. commit_raises x = None \<and> refresh_raises x = Some e \<longrightarrow>
            status_code (fst (post_api_contact ev x body w)) = 500
            \<and> net (snd (post_api_contact ev x body w)) = net w)
       \<and> (commit_raises x = None \<and> refresh_raises x = None \<longrightarrow>
            snd (post_api_contact ev x body w) =
              try_send_contact_email x payload
                (w\<lparr>table := table w @ [stored_row x payload (table w)]\<rparr>))
       \<and> (net (snd (post_api_contact ev x body w)) \<noteq> net w \<longrightarrow>
            table (snd (post_api_contact ev x body w)) = table w @ [stored_row x payload (table w)])"
proof (intro conjI allI impI)
  fix e assume "commit_raises x = Some e"
  with assms show "post_api_contact ev x body w = (HTTP 500 (JStr ''Internal Server Error''), w)"
    by (rule post_commit_raises)
next
  fix e assume a: "commit_raises x = None \<and> refresh_raises x = Some e"
  with assms show "status_code (fst (post_api_contact ev x body w)) = 500"
    by (simp add: post_refresh_raises)
  from assms a show "net (snd (post_api_contact ev x body w)) = net w"
    by (simp add: post_refresh_raises)
next
  assume "commit_raises x = None \<and> refresh_raises x = None"
  with assms show "snd (post_api_contact ev x body w) =
      try_send_contact_email x payload (w\<lparr>table := table w @ [stored_row x payload (table w)]\<rparr>)"
    by (simp add: post_stored)
next
  assume changed: "net (snd (post_api_contact ev x body w)) \<noteq> net w"
  show "table (snd (post_api_contact ev x body w)) = table w @ [stored_row x payload (table w)]"
  proof (cases "commit_raises x")
    case (Some e)
    with assms changed show ?thesis by (simp add: post_commit_raises)
  next
    case None
    show ?thesis
    proof (cases "refresh_raises x")
      case (Some e)
      with assms None show ?thesis by (simp add: post_refresh_raises)
    next
      case rNone: None
      have "table (try_send_contact_email x payload
              (w\<lparr>table := table w @ [stored_row x payload (table w)]\<rparr>))
            = table (w\<lparr>table := table w @ [stored_row x payload (table w)]\<rparr>)"
        using try_send_contact_email_frame by blast
      with assms None rNone show ?thesis by (simp add: post_stored)
    qed
  qed
qed

theorem insert_precedes_mail_witness:
  "post_api_contact has_at_sign (x0\<lparr>commit_raises := Some locked\<rparr>) body_ok w_configured =
     (HTTP 500 (JStr ''Internal Server Error''), w_configured)
   \<and> net (snd (post_api_contact has_at_sign x0 body_ok w_configured)) \<noteq> net w_configured
   \<and> table (snd (post_api_contact has_at_sign x0 body_ok w_configured)) =
       [\<lparr>cm_id = Some 1, cm_name = ''A'', cm_email = ''a@b.c'',
         cm_message = ''hi'', cm_created_at = Some 1000\<rparr>]"
proof -
  have fails: "commit_raises (x0\<lparr>commit_raises := Some locked\<rparr>) = Some locked" by simp
  have ok: "commit_raises x0 = None \<and> refresh_raises x0 = None" by (simp add: x0_def)
  note a = insert_precedes_mail[OF validate_body_ok, of "x0\<lparr>commit_raises := Some locked\<rparr>" w_configured]
  note b = insert_precedes_mail[OF validate_body_ok, of x0 w_configured]
  from a fails have 1: "post_api_contact has_at_sign (x0\<lparr>commit_raises := Some locked\<rparr>) body_ok w_configured =
     (HTTP 500 (JStr ''Internal Server Error''), w_configured)" by blast
  from b ok have "snd (post_api_contact has_at_sign x0 body_ok w_configured) =
     try_send_contact_email x0 payload_ok
       (w_configured\<lparr>table := table w_configured @ [stored_row x0 payload_ok (table w_configured)]\<rparr>)"
    by blast
  then have 2: "net (snd (post_api_contact has_at_sign x0 body_ok w_configured)) \<noteq> net w_configured"
    by (simp add: try_send_sample) (simp add: w_configured_def)
  with b have "table (snd (post_api_contact has_at_sign x0 body_ok w_configured)) =
     table w_configured @ [stored_row x0 payload_ok (table w_configured)]" by blast
  then have 3: "table (snd (post_api_contact has_at_sign x0 body_ok w_configured)) =
       [\<lparr>cm_id = Some 1, cm_name = ''A'', cm_email = ''a@b.c'',
         cm_message = ''hi'', cm_created_at = Some 1000\<rparr>]"
    by (simp add: x0_def w_configured_def payload_ok_def next_rowid_Nil)
  from 1 2 3 show ?thesis by blast
qed

text \<open>
  C4, as stated, fails: when the commit succeeds and the refresh after it raises, the caller
  observes an error (500) although the store has changed: it holds the complete new record.
\<close>

theorem error_after_commit_counterexample:
  "status_code (fst (post_api_contact has_at_sign (x0\<lparr>refresh_raises := Some locked\<rparr>) body_ok w0)) = 500
   \<and> table (snd (post_api_contact has_at_sign (x0\<lparr>refresh_raises := Some locked\<rparr>) body_ok w0)) =
       [\<lparr>cm_id = Some 1, cm_name = ''A'', cm_email = ''a@b.c'',
         cm_message = ''hi'', cm_created_at = Some 1000\<rparr>]
   \<and> table (snd (post_api_contact has_at_sign (x0\<lparr>refresh_raises := Some locked\<rparr>) body_ok w0)) \<noteq> table w0"
proof -
  have "commit_raises (x0\<lparr>refresh_raises := Some locked\<rparr>) = None"
    and "refresh_raises (x0\<lparr>refresh_raises := Some locked\<rparr>) = Some locked"
    by (simp_all add: x0_def)
  from post_refresh_raises[OF validate_body_ok this, of w0]
  show ?thesis by (simp add: x0_def w0_def payload_ok_def next_rowid_Nil)
qed

text \<open>
  C4, amended. For every valid submission the caller observes either the success response
  with the id of the committed record, or an error. When the commit itself raises, the table
  is unchanged; when the commit succeeds and the refresh raises, the table holds the new
  record. In no case does the table hold a partial record: a stored record always has its
  id, its three fields and its timestamp.
\<close>

theorem insert_committed_or_error:
  assumes "ContactRequest_validate ev body = Inr payload"
  shows "(commit_raises x = None \<and> refresh_raises x = None
          \<and> fst (post_api_contact ev x body w) = saved_response (next_rowid (table w))
          \<and> table (snd (post_api_contact ev x body w)) = table w @ [stored_row x payload (table w)])
       \<or> (commit_raises x \<noteq> None
          \<and> status_code (fst (post_api_contact ev x body w)) = 500
          \<and> table (snd (post_api_contact ev x body w)) = table w)
       \<or> (commit_raises x = None \<and> refresh_raises x \<noteq> None
          \<and> status_code (fst (post_api_contact ev x body w)) = 500
          \<and> table (snd (post_api_contact ev x body w)) = table w @ [stored_row x payload (table w)])"
proof (cases "commit_raises x")
  case (Some e)
  with assms show ?thesis by (simp add: post_commit_raises)
next
  case None
  show ?thesis
  proof (cases "refresh_raises x")
    case (Some e)
    with assms None show ?thesis by (simp add: post_refresh_raises)
  next
    case rNone: None
    have "table (try_send_contact_email x payload
            (w\<lparr>table := table w @ [stored_row x payload (table w)]\<rparr>))
          = table (w\<lparr>table := table w @ [stored_row x payload (table w)]\<rparr>)"
      using try_send_contact_email_frame by blast
    with assms None rNone show ?thesis by (simp add: post_stored)
  qed
qed

theorem insert_committed_or_error_witness:
  "fst (post_api_contact has_at_sign x0 body_ok w0) = saved_response 1
   \<and> table (snd (post_api_contact has_at_sign x0 body_ok w0)) =
       [\<lparr>cm_id = Some 1, cm_name = ''A'', cm_email = ''a@b.c'', cm_message = ''hi'',
         cm_created_at = Some 1000\<rparr>]"
proof -
  have ok: "commit_raises x0 = None" "refresh_raises x0 = None" by (simp_all add: x0_def)
  from insert_committed_or_error[OF validate_body_ok, of x0 w0] ok
  have "fst (post_api_contact has_at_sign x0 body_ok w0) = saved_response (next_rowid (table w0))
      \<and> table (snd (post_api_contact has_at_sign x0 body_ok w0)) =
          table w0 @ [stored_row x0 payload_ok (table w0)]"
    by simp
  then show ?thesis by (simp add: x0_def w0_def payload_ok_def next_rowid_Nil)
qed







text \<open>
  C10. A body whose \<open>name\<close> and \<open>message\<close> are any strings, the empty string included,
  passes validation as soon as the email does; when the store does not fail, the submission
  is stored with those strings and answered with the success response.
\<close>

theorem empty_name_or_message_accepted:
  assumes "body ''name'' = Some (JStr n)" and "body ''email'' = Some (JStr s)" and "ev s = Some a"
    and "body ''message'' = Some (JStr m)"
  shows "ContactRequest_validate ev body = Inr \<lparr>name = n, email = a, message = m\<rparr>
       \<and> (commit_raises x = None \<and> refresh_raises x = None \<longrightarrow>
            fst (post_api_contact ev x body w) = saved_response (next_rowid (table w))
            \<and> table (snd (post_api_contact ev x body w)) =
                table w @ [\<lparr>cm_id = Some (next_rowid (table w)), cm_name = n, cm_email = a,
                            cm_message = m, cm_created_at = Some (utcnow x)\<rparr>])"
proof -
  have v: "ContactRequest_validate ev body = Inr \<lparr>name = n, email = a, message = m\<rparr>"
    using assms by (rule validate_strings)
  have "table (try_send_contact_email x p (w\<lparr>table := t\<rparr>)) = t" for p t
    using try_send_contact_email_frame[of x p "w\<lparr>table := t\<rparr>"] by simp
  with v show ?thesis by (simp add: post_stored)
qed

theorem empty_name_or_message_accepted_witness:
  "ContactRequest_validate has_at_sign body_empty = Inr \<lparr>name = '''', email = ''a@b.c'', message = ''''\<rparr>
   \<and> fst (post_api_contact has_at_sign x0 body_empty w0) = saved_response 1
   \<and> table (snd (post_api_contact has_at_sign x0 body_empty w0)) =
       [\<lparr>cm_id = Some 1, cm_name = '''', cm_email = ''a@b.c'', cm_message = '''',
         cm_created_at = Some 1000\<rparr>]"
proof -
  have h: "body_empty ''name'' = Some (JStr '''')" "body_empty ''email'' = Some (JStr ''a@b.c'')"
    "has_at_sign ''a@b.c'' = Some ''a@b.c''" "body_empty ''message'' = Some (JStr '''')"
    by (simp_all add: body_empty_def has_at_sign_def)
  have ok: "commit_raises x0 = None \<and> refresh_raises x0 = None" by (simp add: x0_def)
  from empty_name_or_message_accepted[where body = body_empty and ev = has_at_sign and x = x0 and w = w0, OF h] ok show ?thesis
    by (simp add: x0_def w0_def next_rowid_Nil)
qed

text \<open>
  C8. A row that a submission inserts carries as \<open>created_at\<close> the reading of the
  server's clock during that request, and a request adds at most that one row. No request
  changes a row already in the table: after any run of requests the old table is a prefix
  of the new one, so every old row, its \<open>created_at\<close> included, is as it was.
\<close>

theorem created_at_set_once:
  "(table (snd (post_api_contact ev x body w)) = table w
      \<or> (\<exists>r. table (snd (post_api_contact ev x body w)) = table w @ [r]
              \<and> cm_created_at r = Some (utcnow x)))
   \<and> (\<forall>payload. ContactRequest_validate ev body = Inr payload \<and> commit_raises x = None \<longrightarrow>
        (\<exists>r. table (snd (post_api_contact ev x body w)) = table w @ [r]
              \<and> cm_created_at r = Some (utcnow x)))
   \<and> prefix (table w) (table (snd (run ev qs w)))
   \<and> (\<forall>k < length (table w). table (snd (run ev qs w)) ! k = table w ! k)"
proof -
  have frame: "table (try_send_contact_email x p (w\<lparr>table := t\<rparr>)) = t" for p t
    using try_send_contact_email_frame[of x p "w\<lparr>table := t\<rparr>"] by simp
  have ins: "\<exists>r. table (snd (post_api_contact ev x body w)) = table w @ [r]
              \<and> cm_created_at r = Some (utcnow x)"
    if "ContactRequest_validate ev body = Inr payload" and "commit_raises x = None" for payload
    using that frame
    by (cases "refresh_raises x") (simp_all add: post_refresh_raises post_stored)
  have step: "table (snd (post_api_contact ev x body w)) = table w
      \<or> (\<exists>r. table (snd (post_api_contact ev x body w)) = table w @ [r]
              \<and> cm_created_at r = Some (utcnow x))"
  proof (cases "ContactRequest_validate ev body")
    case (Inl errs)
    then show ?thesis by (simp add: post_invalid)
  next
    case (Inr payload)
    then show ?thesis
      using ins[of payload] by (cases "commit_raises x") (simp_all add: post_commit_raises)
  qed
  have pre: "prefix (table w) (table (snd (run ev qs w)))"
    by (rule run_table_prefix)
  then have "\<forall>k < length (table w). table (snd (run ev qs w)) ! k = table w ! k"
    by (auto simp: prefix_def nth_append)
  with step ins pre show ?thesis by blast
qed

theorem created_at_set_once_witness:
  "(\<exists>r. table (snd (post_api_contact has_at_sign x0 body_ok w_one_row)) = table w_one_row @ [r]
        \<and> cm_created_at r = Some 1000)
   \<and> cm_created_at (table (snd (run has_at_sign [POST_api_contact x0 body_ok, GET_root] w_one_row)) ! 0)
       = Some 500"
proof -
  let ?qs = "[POST_api_contact x0 body_ok, GET_root]"
  note t = created_at_set_once[of has_at_sign x0 body_ok w_one_row ?qs]
  have h: "ContactRequest_validate has_at_sign body_ok = Inr payload_ok \<and> commit_raises x0 = None"
    using validate_body_ok by (simp add: x0_def)
  have now: "utcnow x0 = 1000" by (simp add: x0_def)
  from t h have 1: "\<exists>r. table (snd (post_api_contact has_at_sign x0 body_ok w_one_row)) = table w_one_row @ [r]
        \<and> cm_created_at r = Some (utcnow x0)" by blast
  have k: "0 < length (table w_one_row)" by (simp add: w_one_row_def)
  from t k have "table (snd (run has_at_sign ?qs w_one_row)) ! 0 = table w_one_row ! 0" by blast
  then have 2: "cm_created_at (table (snd (run has_at_sign ?qs w_one_row)) ! 0) = Some 500"
    by (simp add: w_one_row_def old_row_def del: run.simps)
  from 1 2 show ?thesis unfolding now by blast
qed

text \<open>
  C9. \<open>GET /\<close> answers 200 with the body \<open>{"status": "ok", "message": ...}\<close> and leaves
  the world as it is (table, environment, network trace and output), in every state of the
  store and of the notifier's configuration.
\<close>

theorem get_root_fixed_and_pure:
  "get_root w = (HTTP 200 (JObj [(''status'', JStr ''ok''),
                                 (''message'', JStr ''Lunara AI backend is running'')]), w)"
  by (simp add: get_root_def read_root_def)

end
